theory Spec2Isabelle
  imports Complex_Main "HOL-Library.Word"
begin

section \<open>JavaScript strings\<close>

text \<open>
  A JavaScript string is a sequence of UTF-16 code units and \<open>length\<close> counts code
  units, so a string is a list of 16-bit words. \<open>js\<close> embeds an ASCII literal.
\<close>

type_synonym jstring = "16 word list"

definition js :: "string \<Rightarrow> jstring" where
  "js s = map of_char s"

section \<open>Backend status badge (src/components/BackendStatusBadge.tsx)\<close>

datatype BackendStatus = Ok | Warn | Error

text \<open>
  What \<open>await fetch(healthUrl, {signal})\<close> does in one check: it rejects by itself
  (network failure), it is aborted by the controller when the 6000 ms timer fires
  first (the promise then rejects with an AbortError), or it resolves to a response
  with an HTTP status.
\<close>

datatype probe = FetchRejected | FetchAborted | FetchResolved nat

text \<open>\<open>Response.ok\<close>: the status is in the range 200 to 299.\<close>

definition res_ok :: "nat \<Rightarrow> bool" where
  "res_ok st = (200 \<le> st \<and> st \<le> 299)"

text \<open>\<open>runCheck\<close>: every path ends in one \<open>setStatus\<close>; the value set is returned.\<close>

fun runCheck :: "probe \<Rightarrow> BackendStatus" where
  "runCheck (FetchResolved st) =
     (if res_ok st then Ok else if st \<ge> 500 then Error else Warn)"
| "runCheck FetchRejected = Error"
| "runCheck FetchAborted = Error"

section \<open>Context-aware completion proxy (supabase/functions/gemini/index.ts)\<close>

subsection \<open>JavaScript values read from JSON\<close>

text \<open>
  The values \<open>JSON.parse\<close> produces, and \<open>undefined\<close> for a property that is absent.
  An object is the association list of its own properties.
\<close>

datatype jsval =
    JUndefined
  | JNull
  | JBool bool
  | JNum rat
  | JStr jstring
  | JArr "jsval list"
  | JObj "(jstring \<times> jsval) list"

text \<open>Truthiness, as \<open>!x\<close>, \<open>x && y\<close> and \<open>if (x)\<close> test it.\<close>

fun truthy :: "jsval \<Rightarrow> bool" where
  "truthy JUndefined = False"
| "truthy JNull = False"
| "truthy (JBool b) = b"
| "truthy (JNum n) = (n \<noteq> 0)"
| "truthy (JStr s) = (s \<noteq> [])"
| "truthy (JArr xs) = True"
| "truthy (JObj kvs) = True"

text \<open>
  \<open>x?.k\<close> for the property names the proxy reads (none of them is defined on a
  prototype): only an object has them. Every plain access \<open>x.k\<close> in the proxy but
  \<open>out.error\<close> is guarded by a test that \<open>x\<close> is truthy, so it never throws and is
  the same function.
\<close>

fun get_prop :: "jstring \<Rightarrow> jsval \<Rightarrow> jsval" where
  "get_prop k (JObj kvs) = (case map_of kvs k of None \<Rightarrow> JUndefined | Some v \<Rightarrow> v)"
| "get_prop k v = JUndefined"

text \<open>\<open>x?.[0]\<close>: the first element of an array, the property \<open>"0"\<close> of an object, the
  first code unit of a string.\<close>

fun index0 :: "jsval \<Rightarrow> jsval" where
  "index0 (JArr []) = JUndefined"
| "index0 (JArr (x # xs)) = x"
| "index0 (JObj kvs) = get_prop (js ''0'') (JObj kvs)"
| "index0 (JStr []) = JUndefined"
| "index0 (JStr (c # cs)) = JStr [c]"
| "index0 v = JUndefined"

fun isArray :: "jsval \<Rightarrow> bool" where
  "isArray (JArr xs) = True"
| "isArray v = False"

text \<open>\<open>typeof x === 'string'\<close>, and the string itself.\<close>

fun is_string :: "jsval \<Rightarrow> bool" where
  "is_string (JStr s) = True"
| "is_string v = False"

fun str_of :: "jsval \<Rightarrow> jstring" where
  "str_of (JStr s) = s"
| "str_of v = []"

text \<open>\<open>x || y\<close>.\<close>

definition js_or :: "jsval \<Rightarrow> jsval \<Rightarrow> jsval" where
  "js_or x y = (if truthy x then x else y)"

subsection \<open>Store, request and response\<close>

text \<open>A row of the table \<open>messages\<close> (integrations/supabase/types.ts); \<open>created_at\<close> is
  the instant as a number.\<close>

record message_row =
  row_id :: jstring
  chat_id :: "jstring option"
  row_content :: jstring
  created_at :: nat
  row_sender :: jstring

text \<open>One element of \<open>contents\<close>: \<open>{role, parts: [{text}]}\<close>.\<close>

record turn =
  turn_role :: jstring
  turn_text :: jstring

text \<open>The object handed to \<open>supabase.from('messages').insert\<close>.\<close>

record insert_row =
  ins_chat_id :: jstring
  ins_content :: jsval
  ins_sender :: jstring

text \<open>What the \<open>catch\<close> of the handler receives: an \<open>Error\<close> with a message, or the
  engine's own TypeError (reading a property of \<open>null\<close>, a body given with a status
  that allows none) or RangeError (a response status outside 200 to 599), whose
  text is the engine's.\<close>

datatype exn = Exn jstring | EngineTypeError | EngineRangeError

datatype body =
    NoBody
  | HealthBody bool "jstring option"
  | ErrorBody jsval "jsval option"
  | ThrownBody exn
  | OkBody jsval jsval

record response =
  http_status :: nat
  http_body :: body

text \<open>
  The surroundings of one invocation: the server-side credential, the table
  \<open>messages\<close>, whether the select comes back with an error (\<open>data\<close> is then
  \<open>null\<close>), and what the generation endpoint does: the fetch or the parsing of its
  body rejects, or there is a status and a parsed body. The store client is taken
  to be constructed without failure.
\<close>

record env =
  geminiApiKey :: "jstring option"
  messages_table :: "message_row list"
  select_fails :: bool
  upstream :: "jstring + nat \<times> jsval"

text \<open>A request: its method and what \<open>await req.json()\<close> gives (\<open>Inl\<close>: it rejects).\<close>

record request =
  req_method :: jstring
  req_json :: "jstring + jsval"

text \<open>What one invocation did: the response, the \<open>contents\<close> posted to the generation
  endpoint if it was called, and the rows handed to \<open>insert\<close>.\<close>

record outcome =
  response :: response
  sent :: "turn list option"
  inserted :: "insert_row list"

definition reply :: "nat \<Rightarrow> body \<Rightarrow> outcome" where
  "reply st b = \<lparr>response = \<lparr>http_status = st, http_body = b\<rparr>, sent = None, inserted = []\<rparr>"

subsection \<open>Context assembly\<close>

definition MAX_MESSAGES :: nat where
  "MAX_MESSAGES = 12"

definition MAX_CONTEXT_CHARS :: nat where
  "MAX_CONTEXT_CHARS = 5000"

text \<open>
  \<open>from('messages').select('*').eq('chat_id', chatId).order('created_at',
  {ascending: false}).limit(MAX_MESSAGES)\<close>: the rows of the conversation, newest
  first, at most twelve of them; \<open>None\<close> is \<open>data = null\<close>.
\<close>

definition select_recent :: "env \<Rightarrow> jstring \<Rightarrow> message_row list option" where
  "select_recent e chatId =
     (if select_fails e then None
      else Some (take MAX_MESSAGES
                  (rev (sort_key created_at
                         (filter (\<lambda>m. chat_id m = Some chatId) (messages_table e))))))"

definition turn_of :: "message_row \<Rightarrow> turn" where
  "turn_of message =
     \<lparr>turn_role = (if row_sender message = js ''user'' then js ''user'' else js ''model''),
      turn_text = row_content message\<rparr>"

text \<open>The \<open>for\<close> loop over \<open>contextMessages\<close>, with its \<open>break\<close>.\<close>

fun add_context :: "message_row list \<Rightarrow> turn list \<Rightarrow> nat \<Rightarrow> turn list" where
  "add_context [] contents totalChars = contents"
| "add_context (message # rest) contents totalChars =
     (if totalChars + length (row_content message) > MAX_CONTEXT_CHARS then contents
      else add_context rest (contents @ [turn_of message])
             (totalChars + length (row_content message)))"

text \<open>\<open>contextMessages\<close>: the loaded rows in chronological order.\<close>

definition contextMessages :: "message_row list option \<Rightarrow> message_row list" where
  "contextMessages recentMessages =
     (case recentMessages of None \<Rightarrow> [] | Some ms \<Rightarrow> rev ms)"

definition build_contents :: "message_row list option \<Rightarrow> turn list" where
  "build_contents recentMessages =
     (case recentMessages of
        None \<Rightarrow> []
      | Some ms \<Rightarrow> if length ms > 0 then add_context (rev ms) [] 0 else [])"

definition truncatedPrompt :: "jstring \<Rightarrow> jstring" where
  "truncatedPrompt prompt = (if length prompt > 1000 then take 1000 prompt else prompt)"

definition with_fallback :: "jstring \<Rightarrow> turn list \<Rightarrow> turn list" where
  "with_fallback prompt contents =
     (if length contents = 0
      then contents @ [\<lparr>turn_role = js ''user'', turn_text = truncatedPrompt prompt\<rparr>]
      else contents)"

subsection \<open>Response extraction and the handler\<close>

definition extract_text :: "jsval \<Rightarrow> jsval" where
  "extract_text out =
     (let cand = index0 (get_prop (js ''candidates'') out) in
      if truthy cand \<and> truthy (get_prop (js ''content'') cand) \<and>
         isArray (get_prop (js ''parts'') (get_prop (js ''content'') cand)) \<and>
         truthy (get_prop (js ''text'') (index0 (get_prop (js ''parts'') (get_prop (js ''content'') cand))))
      then get_prop (js ''text'') (index0 (get_prop (js ''parts'') (get_prop (js ''content'') cand)))
      else if truthy (get_prop (js ''output'') out) \<and> isArray (get_prop (js ''output'') out) \<and>
         truthy (get_prop (js ''text'')
                   (index0 (get_prop (js ''content'') (index0 (get_prop (js ''output'') out)))))
      then get_prop (js ''text'') (index0 (get_prop (js ''content'') (index0 (get_prop (js ''output'') out))))
      else JNull)"

text \<open>The handler from the store read on, for a validated prompt and conversation id.
  For an upstream answer that is not OK, \<open>out.error\<close> of \<open>null\<close> throws, and so does
  the construction of the response for a status outside 200 to 599 or for the status
  304, which allows no body; the \<open>catch\<close> answers each with 500.\<close>

definition generate :: "env \<Rightarrow> jstring \<Rightarrow> jstring \<Rightarrow> outcome" where
  "generate e prompt chatId =
     (let contents = with_fallback prompt (build_contents (select_recent e chatId)) in
      case upstream e of
        Inl err \<Rightarrow>
          \<lparr>response = \<lparr>http_status = 500, http_body = ThrownBody (Exn err)\<rparr>,
           sent = Some contents, inserted = []\<rparr>
      | Inr (st, out) \<Rightarrow>
          if \<not> res_ok st then
            (if out = JNull then
               \<lparr>response = \<lparr>http_status = 500, http_body = ThrownBody EngineTypeError\<rparr>,
                sent = Some contents, inserted = []\<rparr>
             else if st < 200 \<or> 599 < st then
               \<lparr>response = \<lparr>http_status = 500, http_body = ThrownBody EngineRangeError\<rparr>,
                sent = Some contents, inserted = []\<rparr>
             else if st = 304 then
               \<lparr>response = \<lparr>http_status = 500, http_body = ThrownBody EngineTypeError\<rparr>,
                sent = Some contents, inserted = []\<rparr>
             else
               \<lparr>response = \<lparr>http_status = st,
                   http_body = ErrorBody
                     (js_or (get_prop (js ''message'') (get_prop (js ''error'') out))
                            (JStr (js ''Gemini API error'')))
                     (Some out)\<rparr>,
                sent = Some contents, inserted = []\<rparr>)
          else
            (let text = extract_text out in
             \<lparr>response = \<lparr>http_status = 200, http_body = OkBody text out\<rparr>,
              sent = Some contents,
              inserted =
                (if truthy text
                 then [\<lparr>ins_chat_id = chatId, ins_content = text,
                        ins_sender = js ''assistant''\<rparr>]
                 else [])\<rparr>))"

definition has_key :: "env \<Rightarrow> bool" where
  "has_key e = (case geminiApiKey e of None \<Rightarrow> False | Some k \<Rightarrow> k \<noteq> [])"

definition serve :: "env \<Rightarrow> request \<Rightarrow> outcome" where
  "serve e req =
     (if req_method req = js ''OPTIONS'' then reply 200 NoBody
      else if req_method req = js ''GET'' then
        (if \<not> has_key e
         then reply 503 (HealthBody False (Some (js ''GEMINI_API_KEY missing'')))
         else reply 200 (HealthBody True None))
      else if req_method req \<noteq> js ''POST'' then
        reply 405 (ErrorBody (JStr (js ''Method not allowed'')) None)
      else if \<not> has_key e then
        reply 400 (ErrorBody (JStr (js ''GEMINI_API_KEY missing'')) None)
      else
        (case req_json req of
           Inl err \<Rightarrow> reply 500 (ThrownBody (Exn err))
         | Inr b \<Rightarrow>
             if b = JNull then reply 500 (ThrownBody EngineTypeError)
             else if \<not> truthy (get_prop (js ''prompt'') b) \<or> \<not> is_string (get_prop (js ''prompt'') b)
             then reply 400 (ErrorBody (JStr (js ''Prompt is required'')) None)
             else if \<not> truthy (get_prop (js ''chatId'') b) \<or> \<not> is_string (get_prop (js ''chatId'') b)
             then reply 400 (ErrorBody (JStr (js ''Chat ID is required'')) None)
             else generate e (str_of (get_prop (js ''prompt'') b)) (str_of (get_prop (js ''chatId'') b))))"

text \<open>A POST request whose body is \<open>{prompt, chatId}\<close>.\<close>

definition post_request :: "jstring \<Rightarrow> jstring \<Rightarrow> request" where
  "post_request prompt chatId =
     \<lparr>req_method = js ''POST'',
      req_json = Inr (JObj [(js ''prompt'', JStr prompt), (js ''chatId'', JStr chatId)])\<rparr>"

text \<open>The number of characters a context holds.\<close>

definition context_chars :: "turn list \<Rightarrow> nat" where
  "context_chars contents = sum_list (map (\<lambda>t. length (turn_text t)) contents)"

text \<open>A POST request with a body whose \<open>prompt\<close> and \<open>chatId\<close> are these non-empty
  strings: it passes the validation of the handler.\<close>

definition valid_post :: "request \<Rightarrow> jstring \<Rightarrow> jstring \<Rightarrow> bool" where
  "valid_post req prompt chatId =
     (req_method req = js ''POST'' \<and> prompt \<noteq> [] \<and> chatId \<noteq> [] \<and>
      (case req_json req of
         Inl err \<Rightarrow> False
       | Inr b \<Rightarrow> get_prop (js ''prompt'') b = JStr prompt \<and>
                  get_prop (js ''chatId'') b = JStr chatId))"

text \<open>The length of the chronologically first stored turn of a conversation (0 if it
  has none).\<close>

definition oldest_chars :: "env \<Rightarrow> jstring \<Rightarrow> nat" where
  "oldest_chars e chatId =
     (case sort_key created_at (filter (\<lambda>m. chat_id m = Some chatId) (messages_table e)) of
        [] \<Rightarrow> 0
      | m # ms \<Rightarrow> length (row_content m))"

section \<open>Chat session manager (src/components/PilotChat.tsx)\<close>

subsection \<open>Transcript\<close>

record Attachment =
  att_id :: jstring
  att_name :: jstring
  att_type :: jstring
  att_url :: jstring

datatype Sender = User | Pilot

datatype MsgStatus = Sending | Sent | Failed

text \<open>
  A message of the transcript. \<open>timestamp\<close> is the instant in milliseconds that the
  ISO string denotes (\<open>new Date(m.timestamp).getTime()\<close>); \<open>Failed\<close> is the status
  \<open>'error'\<close>; an optional field that is absent is \<open>None\<close>. The display annotations
  \<open>sources\<close> and \<open>checklist\<close> are read by no operation below and are left out.
\<close>

record Message =
  msg_id :: jstring
  content :: jstring
  sender :: Sender
  timestamp :: int
  status :: "MsgStatus option"
  replyToId :: "jstring option"
  attachments :: "Attachment list option"

datatype SupabaseStatus = Disconnected | Connecting | Connected | StatusError

text \<open>The component state that a submission reads or writes. \<open>supabaseRef\<close> says
  whether the reference holds a client; \<open>StatusError\<close> is the status \<open>'error'\<close>.\<close>

record chat_state =
  messages :: "Message list"
  inputValue :: jstring
  isLoading :: bool
  isProcessingRef :: bool
  geminiHealth :: bool
  replyTo :: "Message option"
  pendingFiles :: "Attachment list"
  supabaseRef :: bool
  supabaseStatus :: SupabaseStatus

subsection \<open>Text helpers\<close>

text \<open>The code units that \<open>trim\<close> removes and \<open>\s\<close> matches.\<close>

definition is_space :: "16 word \<Rightarrow> bool" where
  "is_space c =
     (c = 0x9 \<or> c = 0xA \<or> c = 0xB \<or> c = 0xC \<or> c = 0xD \<or> c = 0x20 \<or> c = 0xA0 \<or>
      c = 0x1680 \<or> (0x2000 \<le> c \<and> c \<le> 0x200A) \<or> c = 0x2028 \<or> c = 0x2029 \<or>
      c = 0x202F \<or> c = 0x205F \<or> c = 0x3000 \<or> c = 0xFEFF)"

definition trim :: "jstring \<Rightarrow> jstring" where
  "trim s = rev (dropWhile is_space (rev (dropWhile is_space s)))"

text \<open>\<open>startsWith('/')\<close>.\<close>

definition startsWithSlash :: "jstring \<Rightarrow> bool" where
  "startsWithSlash s = (case s of [] \<Rightarrow> False | c # cs \<Rightarrow> c = 0x2F)"

text \<open>The class \<open>[A-Za-z0-9-_]\<close>.\<close>

definition is_token_char :: "16 word \<Rightarrow> bool" where
  "is_token_char c =
     ((0x41 \<le> c \<and> c \<le> 0x5A) \<or> (0x61 \<le> c \<and> c \<le> 0x7A) \<or> (0x30 \<le> c \<and> c \<le> 0x39) \<or>
      c = 0x2D \<or> c = 0x5F)"

text \<open>
  Whether \<open>\s+([A-Za-z0-9-_]{16,})$\<close> matches a whole string: the class holds no
  whitespace, so the only split is the longest run of whitespace and the rest.
\<close>

definition matches_secret :: "jstring \<Rightarrow> bool" where
  "matches_secret s =
     (takeWhile is_space s \<noteq> [] \<and> 16 \<le> length (dropWhile is_space s) \<and>
      list_all is_token_char (dropWhile is_space s))"

text \<open>
  \<open>raw.replace(/\s+([A-Za-z0-9-_]{16,})$/, ' <REDACTED>')\<close>: the leftmost position
  from which the pattern matches up to the end of the string is replaced.
\<close>

fun sanitize :: "jstring \<Rightarrow> jstring" where
  "sanitize [] = []"
| "sanitize (c # cs) =
     (if matches_secret (c # cs) then js '' <REDACTED>'' else c # sanitize cs)"

subsection \<open>Notices\<close>

definition duplicate_notice :: jstring where
  "duplicate_notice = js ''Mensagem duplicada impedida.''"

text \<open>The notice for a disabled assistant; its fifth and sixth code units are U+00E7
  and U+00E3.\<close>

definition disabled_notice :: jstring where
  "disabled_notice =
     js ''Aten'' @ [0xE7, 0xE3] @
     js ''o: Gemini/IA desativado no momento. Ative para enviar mensagens.''"

definition command_error_notice :: "jstring \<Rightarrow> jstring" where
  "command_error_notice err = js ''Erro ao executar comando: '' @ err"

definition gemini_error_notice :: "jstring \<Rightarrow> jstring" where
  "gemini_error_notice err = js ''Erro Gemini: '' @ err"

subsection \<open>Operations on the transcript\<close>

text \<open>\<open>isDuplicateUserMessage\<close>; \<open>now\<close> is the value of \<open>Date.now()\<close>.\<close>

definition isDuplicateUserMessage ::
  "int \<Rightarrow> Message list \<Rightarrow> jstring \<Rightarrow> jstring option \<Rightarrow> Attachment list option \<Rightarrow> bool" where
  "isDuplicateUserMessage now msgs c r atts =
     (let tenSecondsAgo = now - 10000 in
      list_ex (\<lambda>m. sender m = User \<and> content m = c \<and> replyToId m = r \<and>
                   (case attachments m of None \<Rightarrow> 0 | Some a \<Rightarrow> length a)
                     = (case atts of None \<Rightarrow> 0 | Some a \<Rightarrow> length a) \<and>
                   timestamp m > tenSecondsAgo) msgs)"

text \<open>\<open>addSystemMessage\<close>: the updater handed to \<open>setMessages\<close>, with the identifier
  and the instant that \<open>genId('sys')\<close> and \<open>new Date()\<close> gave.\<close>

definition addSystemMessage :: "jstring \<Rightarrow> int \<Rightarrow> jstring \<Rightarrow> Message list \<Rightarrow> Message list" where
  "addSystemMessage sid t txt prev =
     (if list_ex (\<lambda>m. sender m = Pilot \<and> content m = txt) prev then prev
      else prev @ [\<lparr>msg_id = sid, content = txt, sender = Pilot, timestamp = t,
                    status = Some Sent, replyToId = None, attachments = None\<rparr>])"

text \<open>\<open>prev.map(m => m.id === id ? {...m, status} : m)\<close>.\<close>

definition setStatus :: "jstring \<Rightarrow> MsgStatus \<Rightarrow> Message list \<Rightarrow> Message list" where
  "setStatus i st prev = map (\<lambda>m. if msg_id m = i then m\<lparr>status := Some st\<rparr> else m) prev"

text \<open>The messages of the user in a transcript.\<close>

definition userMessages :: "Message list \<Rightarrow> Message list" where
  "userMessages msgs = filter (\<lambda>m. sender m = User) msgs"

subsection \<open>Surroundings of one submission\<close>

text \<open>
  What the guarded part (the \<open>try\<close> block) of a command does with the store: it
  throws (the construction of the client, the request, an error in its result,
  \<open>JSON.parse\<close> of the argument), with the text of \<open>err?.message || String(err)\<close>;
  or it completes, with the text of \<open>data?.length ?? 0\<close> and of
  \<open>JSON.stringify(data, ...)\<close>.
\<close>

datatype store_outcome = StoreThrew jstring | StoreDone jstring jstring

text \<open>
  What the \<open>try\<close> block around the call of the proxy does: it throws before any
  update of the transcript, as when \<open>fetch\<close> or \<open>resp.json()\<close> rejects (with the text
  of \<open>err?.message || String(err)\<close>); the response is not OK (with the text of
  \<open>out?.error\<close> or of the default text); the response is OK (with the value of
  \<open>text\<close> as a string). Toasts are not part of the state and are left out.
\<close>

datatype proxy_call = FetchThrew jstring | HttpError jstring | HttpOk jstring

text \<open>
  The feature flag, the readings of the clock and of \<open>genId\<close> (for the duplicate
  test, the user message, the notice of the submission, the notice of the command
  and the reply), the behaviour of the store and of the proxy, and the text of the
  canned reply, which is built from the project name and the attachments of the
  user message (\<open>knowledge.queryAccessible\<close> returns no file and does not throw).
  The transcript that the closure of the handler reads is the current one.
\<close>

record send_env =
  gemini :: bool
  date_now :: int
  now_iso :: int
  user_id :: jstring
  notice_id :: jstring
  notice_time :: int
  command_notice_id :: jstring
  command_notice_time :: int
  reply_id :: jstring
  reply_time :: int
  store :: store_outcome
  proxy :: proxy_call
  replyContent :: "Attachment list \<Rightarrow> jstring"

subsection \<open>\<open>handleCommand\<close>\<close>

text \<open>\<open>s.split(/\s+/)\<close>: the pieces between the runs of whitespace (an empty piece
  before a leading and after a trailing run).\<close>

fun split_ws :: "jstring \<Rightarrow> jstring list" where
  "split_ws [] = [[]]"
| "split_ws (c # cs) =
     (if is_space c then
        (case cs of
           [] \<Rightarrow> [] # split_ws cs
         | d # ds \<Rightarrow> if is_space d then split_ws cs else [] # split_ws cs)
      else
        (case split_ws cs of
           [] \<Rightarrow> [[c]]
         | t # ts \<Rightarrow> (c # t) # ts))"

text \<open>\<open>parts[i]\<close>, as the code uses it: an absent element and an empty string are both
  falsy and neither equals a command word, so both are the empty string.\<close>

definition part :: "jstring list \<Rightarrow> nat \<Rightarrow> jstring" where
  "part parts i = (if i < length parts then parts ! i else [])"

text \<open>\<open>xs.join(' ')\<close>.\<close>

fun join_space :: "jstring list \<Rightarrow> jstring" where
  "join_space [] = []"
| "join_space [x] = x"
| "join_space (x # y # ys) = x @ [0x20] @ join_space (y # ys)"

text \<open>The fixed notices of the commands, with their Latin-1 code units.\<close>

definition usage_connect :: jstring where
  "usage_connect =
     js ''Uso: /supabase connect <url> <key>''"

definition connected_notice :: jstring where
  "connected_notice =
     js ''Conex'' @
     [0xE3] @
     js ''o com Supabase estabelecida com sucesso. (Credenciais mantidas em mem'' @
     [0xF3] @
     js ''ria). Local storage/session storage limpos.''"

definition migration_notice :: jstring where
  "migration_notice =
     js ''Migra'' @
     [0xE7] @
     [0xE3] @
     js ''o de mocks/localStorage foi desabilitada. Todas as opera'' @
     [0xE7] @
     [0xF5] @
     js ''es devem ser feitas via Supabase.''"

definition usage_listar :: jstring where
  "usage_listar =
     js ''Uso: /listar <tabela>''"

definition not_connected_notice :: jstring where
  "not_connected_notice =
     js ''Supabase n'' @
     [0xE3] @
     js ''o conectado.''"

definition usage_inserir :: jstring where
  "usage_inserir =
     js ''Uso: /inserir <tabela> <json>''"

definition usage_atualizar :: jstring where
  "usage_atualizar =
     js ''Uso: /atualizar <tabela> <id> <json>''"

definition usage_deletar :: jstring where
  "usage_deletar =
     js ''Uso: /deletar <tabela> <id>''"

definition unknown_notice :: jstring where
  "unknown_notice =
     js ''Comando desconhecido. Comandos dispon'' @
     [0xED] @
     js ''veis: /supabase connect, /listar, /inserir, /atualizar, /deletar''"

text \<open>\<open>addSystemMessage\<close> called by a command.\<close>

definition notify :: "send_env \<Rightarrow> jstring \<Rightarrow> chat_state \<Rightarrow> chat_state" where
  "notify e txt s =
     s\<lparr>messages := addSystemMessage (command_notice_id e) (command_notice_time e) txt
                      (messages s)\<rparr>"

text \<open>
  \<open>handleCommand\<close>. The result is \<open>Inr\<close> of the state when the promise resolves and
  \<open>Inl\<close> of the error text and the state when it rejects. Clearing the local and
  session storage after a connection is not part of the state and is left out.
\<close>

definition handleCommand ::
  "send_env \<Rightarrow> jstring \<Rightarrow> chat_state \<Rightarrow> (jstring \<times> chat_state) + chat_state" where
  "handleCommand e rawCmd s =
     (let parts = split_ws (trim rawCmd);
          cmd = part parts 0 in
      if cmd = js ''/supabase'' \<and> part parts 1 = js ''connect'' then
        (if part parts 2 = [] \<or> part parts 3 = [] then Inr (notify e usage_connect s)
         else
           (case store e of
              StoreDone n r \<Rightarrow>
                Inr (notify e connected_notice
                       (s\<lparr>supabaseRef := True, supabaseStatus := Connected\<rparr>))
            | StoreThrew err \<Rightarrow>
                Inr (notify e (js ''Falha ao conectar Supabase: '' @ err)
                       (s\<lparr>supabaseStatus := StatusError\<rparr>))))
      else if cmd = js ''/migrar-mock'' then Inr (notify e migration_notice s)
      else if cmd = js ''/listar'' then
        (if part parts 1 = [] then Inr (notify e usage_listar s)
         else if \<not> supabaseRef s then Inr (notify e not_connected_notice s)
         else
           (case store e of
              StoreDone n r \<Rightarrow>
                Inr (notify e (js ''Resultados ('' @ n @ js ''):'' @ [0xA, 0xA] @ r) s)
            | StoreThrew err \<Rightarrow> Inr (notify e (js ''Erro ao listar: '' @ err) s)))
      else if cmd = js ''/inserir'' then
        (if part parts 1 = [] \<or> join_space (drop 2 parts) = []
         then Inr (notify e usage_inserir s)
         else if \<not> supabaseRef s then Inr (notify e not_connected_notice s)
         else
           (case store e of
              StoreDone n r \<Rightarrow>
                Inr (notify e (js ''Inser'' @ [0xE7, 0xE3] @ js ''o realizada: '' @ r) s)
            | StoreThrew err \<Rightarrow> Inr (notify e (js ''Erro ao inserir: '' @ err) s)))
      else if cmd = js ''/atualizar'' then
        (if part parts 1 = [] \<or> part parts 2 = [] \<or> join_space (drop 3 parts) = []
         then Inr (notify e usage_atualizar s)
         else if \<not> supabaseRef s then Inr (notify e not_connected_notice s)
         else
           (case store e of
              StoreDone n r \<Rightarrow>
                Inr (notify e (js ''Atualiza'' @ [0xE7, 0xE3] @ js ''o realizada: '' @ r) s)
            | StoreThrew err \<Rightarrow> Inr (notify e (js ''Erro ao atualizar: '' @ err) s)))
      else if cmd = js ''/deletar'' then
        (if part parts 1 = [] \<or> part parts 2 = [] then Inr (notify e usage_deletar s)
         else if \<not> supabaseRef s then Inr (notify e not_connected_notice s)
         else
           (case store e of
              StoreDone n r \<Rightarrow>
                Inr (notify e (js ''Registro '' @ part parts 2 @ js '' removido da tabela '' @
                                 part parts 1 @ js ''.'') s)
            | StoreThrew err \<Rightarrow> Inr (notify e (js ''Erro ao deletar: '' @ err) s)))
      else Inr (notify e unknown_notice s))"


subsection \<open>\<open>handleSendMessage\<close>\<close>

text \<open>The command branch: the input starts with \<open>/\<close>. The latch is already set.\<close>

definition send_command :: "send_env \<Rightarrow> chat_state \<Rightarrow> chat_state" where
  "send_command e s =
     (let raw = trim (inputValue s);
          sanitized = sanitize raw in
      if isDuplicateUserMessage (date_now e) (messages s) sanitized None None then
        s\<lparr>messages := addSystemMessage (notice_id e) (notice_time e) duplicate_notice (messages s),
          inputValue := []\<rparr>
      else
        (let userMessage = \<lparr>msg_id = user_id e, content = sanitized, sender = User,
                            timestamp = now_iso e, status = Some Sending,
                            replyToId = None, attachments = None\<rparr>;
             s1 = s\<lparr>messages := messages s @ [userMessage], inputValue := [],
                    replyTo := None, pendingFiles := [], isLoading := True\<rparr>;
             s2 = (case handleCommand e raw s1 of
                     Inr s' \<Rightarrow> s'\<lparr>messages := setStatus (user_id e) Sent (messages s')\<rparr>
                   | Inl (err, s') \<Rightarrow>
                       s'\<lparr>messages := setStatus (user_id e) Failed
                            (addSystemMessage (notice_id e) (notice_time e)
                               (command_error_notice err) (messages s'))\<rparr>)
         in s2\<lparr>isLoading := False, isProcessingRef := False\<rparr>))"

text \<open>The branch for plain text. The latch is already set.\<close>

definition send_text :: "send_env \<Rightarrow> chat_state \<Rightarrow> chat_state" where
  "send_text e s =
     (let c = inputValue s in
      if isDuplicateUserMessage (date_now e) (messages s) c
           (map_option msg_id (replyTo s)) (Some (pendingFiles s)) then
        s\<lparr>messages := addSystemMessage (notice_id e) (notice_time e) duplicate_notice (messages s),
          inputValue := [], isProcessingRef := False\<rparr>
      else
        (let userMessage = \<lparr>msg_id = user_id e, content = c, sender = User,
                            timestamp = now_iso e, status = Some Sending,
                            replyToId = map_option msg_id (replyTo s),
                            attachments = Some (pendingFiles s)\<rparr>;
             appended = messages s @ [userMessage];
             s1 = s\<lparr>inputValue := [], replyTo := None, pendingFiles := []\<rparr>
         in if gemini e \<and> geminiHealth s then
              (case proxy e of
                 HttpError err \<Rightarrow>
                   s1\<lparr>messages := addSystemMessage (notice_id e) (notice_time e)
                                     (gemini_error_notice err) appended,
                      isLoading := False, isProcessingRef := False\<rparr>
               | HttpOk t \<Rightarrow>
                   s1\<lparr>messages := setStatus (user_id e) Sent
                        (appended @
                          [\<lparr>msg_id = reply_id e,
                            content = (if t = [] then js ''Sem resposta do Gemini.'' else t),
                            sender = Pilot, timestamp = reply_time e, status = Some Sent,
                            replyToId = None, attachments = None\<rparr>]),
                      isLoading := False, isProcessingRef := False\<rparr>
               | FetchThrew err \<Rightarrow>
                   s1\<lparr>messages := setStatus (user_id e) Failed
                        (addSystemMessage (notice_id e) (notice_time e)
                           (gemini_error_notice err) appended),
                      isLoading := False, isProcessingRef := False\<rparr>)
            else
              s1\<lparr>messages := setStatus (user_id e) Sent
                   (if list_ex (\<lambda>m. sender m = Pilot \<and> content m = replyContent e (pendingFiles s))
                         appended
                    then appended
                    else appended @
                      [\<lparr>msg_id = reply_id e, content = replyContent e (pendingFiles s),
                        sender = Pilot, timestamp = reply_time e, status = Some Sent,
                        replyToId = None, attachments = None\<rparr>]),
                 isLoading := False, isProcessingRef := False\<rparr>))"

definition handleSendMessage :: "send_env \<Rightarrow> chat_state \<Rightarrow> chat_state" where
  "handleSendMessage e s =
     (if \<not> gemini e then
        s\<lparr>messages := addSystemMessage (notice_id e) (notice_time e) disabled_notice (messages s)\<rparr>
      else if trim (inputValue s) = [] \<or> isLoading s \<or> isProcessingRef s then s
      else if startsWithSlash (trim (inputValue s))
        then send_command e (s\<lparr>isProcessingRef := True\<rparr>)
        else send_text e (s\<lparr>isProcessingRef := True\<rparr>))"

subsection \<open>Measures on a transcript\<close>

definition noticeCount :: "jstring \<Rightarrow> Message list \<Rightarrow> nat" where
  "noticeCount txt msgs = length (filter (\<lambda>m. sender m = Pilot \<and> content m = txt) msgs)"

text \<open>The status of the message with a given identifier, if the transcript has it.\<close>

definition statusOf :: "jstring \<Rightarrow> Message list \<Rightarrow> MsgStatus option" where
  "statusOf i msgs = (case filter (\<lambda>m. msg_id m = i) msgs of [] \<Rightarrow> None | m # ms \<Rightarrow> status m)"

text \<open>Whether a submission repeats a message of the trailing ten seconds, as the
  branch it takes tests it.\<close>

definition duplicateSubmission :: "send_env \<Rightarrow> chat_state \<Rightarrow> bool" where
  "duplicateSubmission e s =
     (if startsWithSlash (trim (inputValue s))
      then isDuplicateUserMessage (date_now e) (messages s)
             (sanitize (trim (inputValue s))) None None
      else isDuplicateUserMessage (date_now e) (messages s) (inputValue s)
             (map_option msg_id (replyTo s)) (Some (pendingFiles s)))"

section \<open>Concrete runs\<close>

subsection \<open>Stores and requests of the proxy\<close>

definition chars :: "nat \<Rightarrow> jstring" where
  "chars n = replicate n 97"

definition stored :: "nat \<Rightarrow> jstring \<Rightarrow> jstring \<Rightarrow> jstring \<Rightarrow> message_row" where
  "stored n c who txt =
     \<lparr>row_id = [of_nat n], chat_id = Some c, row_content = txt, created_at = n,
      row_sender = who\<rparr>"

text \<open>Fifteen turns of conversation \<open>c1\<close> and one of \<open>c2\<close>. Of the twelve newest of
  \<open>c1\<close> the first two hold 4500 characters, the third would bring the total to 5500
  and the fourth is two characters long.\<close>

definition history15 :: "message_row list" where
  "history15 =
     [stored 1 (js ''c1'') (js ''user'') (chars 10),
      stored 2 (js ''c1'') (js ''assistant'') (chars 10),
      stored 3 (js ''c1'') (js ''user'') (chars 10),
      stored 4 (js ''c1'') (js ''assistant'') (chars 3000),
      stored 5 (js ''c1'') (js ''user'') (chars 1500),
      stored 6 (js ''c2'') (js ''user'') (chars 1),
      stored 7 (js ''c1'') (js ''assistant'') (chars 1000),
      stored 8 (js ''c1'') (js ''user'') (chars 2),
      stored 9 (js ''c1'') (js ''assistant'') (chars 2),
      stored 10 (js ''c1'') (js ''user'') (chars 2),
      stored 11 (js ''c1'') (js ''assistant'') (chars 2),
      stored 12 (js ''c1'') (js ''user'') (chars 2),
      stored 13 (js ''c1'') (js ''assistant'') (chars 2),
      stored 14 (js ''c1'') (js ''user'') (chars 2),
      stored 15 (js ''c1'') (js ''assistant'') (chars 2),
      stored 16 (js ''c1'') (js ''user'') (chars 2)]"

text \<open>Thirteen turns of \<open>c1\<close>: the oldest holds 5001 characters, the others one.\<close>

definition history13 :: "message_row list" where
  "history13 =
     [stored 1 (js ''c1'') (js ''user'') (chars 5001),
      stored 2 (js ''c1'') (js ''assistant'') (chars 1),
      stored 3 (js ''c1'') (js ''assistant'') (chars 1),
      stored 4 (js ''c1'') (js ''assistant'') (chars 1),
      stored 5 (js ''c1'') (js ''assistant'') (chars 1),
      stored 6 (js ''c1'') (js ''assistant'') (chars 1),
      stored 7 (js ''c1'') (js ''assistant'') (chars 1),
      stored 8 (js ''c1'') (js ''assistant'') (chars 1),
      stored 9 (js ''c1'') (js ''assistant'') (chars 1),
      stored 10 (js ''c1'') (js ''assistant'') (chars 1),
      stored 11 (js ''c1'') (js ''assistant'') (chars 1),
      stored 12 (js ''c1'') (js ''assistant'') (chars 1),
      stored 13 (js ''c1'') (js ''assistant'') (chars 1)]"

definition gemini_reply :: jsval where
  "gemini_reply =
     JObj [(js ''candidates'',
            JArr [JObj [(js ''content'',
                         JObj [(js ''parts'',
                                JArr [JObj [(js ''text'', JStr (js ''hello''))]])])]])]"

definition env15 :: env where
  "env15 = \<lparr>geminiApiKey = Some (js ''key''), messages_table = history15,
            select_fails = False, upstream = Inr (200, gemini_reply)\<rparr>"

definition env13 :: env where
  "env13 = env15\<lparr>messages_table := history13\<rparr>"

definition env1 :: env where
  "env1 = env15\<lparr>messages_table := [stored 1 (js ''c1'') (js ''user'') (chars 5001)]\<rparr>"

definition env0 :: env where
  "env0 = env15\<lparr>messages_table := [stored 1 (js ''c2'') (js ''user'') (chars 3)]\<rparr>"

definition req15 :: request where
  "req15 = post_request (js ''hi'') (js ''c1'')"

definition short_turn :: turn where
  "short_turn = \<lparr>turn_role = js ''model'', turn_text = chars 1\<rparr>"

text \<open>Twelve turns of one character.\<close>

definition context13 :: "turn list" where
  "context13 =
     [short_turn, short_turn, short_turn, short_turn, short_turn, short_turn,
      short_turn, short_turn, short_turn, short_turn, short_turn, short_turn]"

subsection \<open>Transcripts and submissions of the chat\<close>

definition hello :: Message where
  "hello = \<lparr>msg_id = js ''hello'', content = js ''Ola! Eu sou o Pilot.'', sender = Pilot,
            timestamp = 0, status = Some Sent, replyToId = None, attachments = None\<rparr>"

text \<open>A command and a plain text sent at instant 1000.\<close>

definition earlier_command :: Message where
  "earlier_command =
     \<lparr>msg_id = js ''u-1'', content = js ''/listar projects'', sender = User,
      timestamp = 1000, status = Some Sent, replyToId = None, attachments = None\<rparr>"

definition earlier_text :: Message where
  "earlier_text =
     \<lparr>msg_id = js ''u-1'', content = js ''oi'', sender = User,
      timestamp = 1000, status = Some Sent, replyToId = None, attachments = Some []\<rparr>"

definition idle :: chat_state where
  "idle = \<lparr>messages = [hello], inputValue = [], isLoading = False, isProcessingRef = False,
           geminiHealth = True, replyTo = None, pendingFiles = [],
           supabaseRef = False, supabaseStatus = Disconnected\<rparr>"

text \<open>The same command, and the same text, typed again.\<close>

definition resubmit_command :: chat_state where
  "resubmit_command =
     idle\<lparr>messages := [hello, earlier_command], inputValue := js ''/listar projects''\<rparr>"

definition resubmit_text :: chat_state where
  "resubmit_text = idle\<lparr>messages := [hello, earlier_text], inputValue := js ''oi''\<rparr>"

definition typing_oi :: chat_state where
  "typing_oi = idle\<lparr>inputValue := js ''oi''\<rparr>"

text \<open>A connection command with whitespace around it and before the key.\<close>

definition typing_connect :: chat_state where
  "typing_connect =
     idle\<lparr>inputValue := js ''  /supabase connect https://x.supabase.co  abcdefghijklmnop_-0123 ''\<rparr>"

text \<open>A submission at instant 3000: the store rejects the credentials; the proxy
  answers with a status that is not OK.\<close>

definition canned :: "Attachment list \<Rightarrow> jstring" where
  "canned atts = js ''## Analise''"

definition send0 :: send_env where
  "send0 = \<lparr>gemini = True, date_now = 3000, now_iso = 3000, user_id = js ''u-2'',
            notice_id = js ''sys-1'', notice_time = 3000,
            command_notice_id = js ''sys-2'', command_notice_time = 3100,
            reply_id = js ''p-1'', reply_time = 3500,
            store = StoreThrew (js ''Invalid API key''),
            proxy = HttpError (js ''quota''), replyContent = canned\<rparr>"

text \<open>The transcript after that connection command, and the same command typed with
  another key.\<close>

definition connect_failed :: "Message list" where
  "connect_failed =
     [hello,
      \<lparr>msg_id = js ''u-2'', content = js ''/supabase connect https://x.supabase.co <REDACTED>'',
        sender = User, timestamp = 3000, status = Some Sent, replyToId = None,
        attachments = None\<rparr>,
      \<lparr>msg_id = js ''sys-2'', content = js ''Falha ao conectar Supabase: Invalid API key'',
        sender = Pilot, timestamp = 3100, status = Some Sent, replyToId = None,
        attachments = None\<rparr>]"

definition typing_other_key :: chat_state where
  "typing_other_key =
     idle\<lparr>messages := connect_failed, supabaseStatus := StatusError,
          inputValue := js ''/supabase connect https://x.supabase.co ZYXWVUTSRQPONMLK9876''\<rparr>"

text \<open>A later submission, at instant 5000.\<close>

definition send1 :: send_env where
  "send1 = send0\<lparr>date_now := 5000, now_iso := 5000, user_id := js ''u-3'',
                 notice_id := js ''sys-3'', notice_time := 5000,
                 command_notice_id := js ''sys-4'', command_notice_time := 5100\<rparr>"

section \<open>Health probe\<close>

text \<open>
  C8. One health-probe check: a fetch that raises or is aborted by the 6-second timer
  gives \<open>error\<close>; a non-2xx status of 500 or more gives \<open>error\<close>; a non-2xx status
  below 500 gives \<open>warn\<close>; a 2xx status gives \<open>ok\<close>.
\<close>

theorem runCheck_outcomes:
  "runCheck FetchRejected = Error \<and> runCheck FetchAborted = Error \<and>
   (\<not> res_ok st \<and> st \<ge> 500 \<longrightarrow> runCheck (FetchResolved st) = Error) \<and>
   (\<not> res_ok st \<and> st < 500 \<longrightarrow> runCheck (FetchResolved st) = Warn) \<and>
   (res_ok st \<longrightarrow> runCheck (FetchResolved st) = Ok)"
  by simp

theorem runCheck_outcomes_witness:
  "runCheck (FetchResolved 503) = Error \<and> runCheck (FetchResolved 404) = Warn \<and>
   runCheck (FetchResolved 204) = Ok \<and> \<not> res_ok 503 \<and> \<not> res_ok 404 \<and> res_ok 204"
  using runCheck_outcomes [of 503] runCheck_outcomes [of 404] runCheck_outcomes [of 204]
  by (simp add: res_ok_def)

section \<open>Properties of the proxy\<close>

lemma length_chars [simp]: "length (chars n) = n"
  by (simp add: chars_def)

lemmas example_defs = env15_def history15_def stored_def js_def req15_def
  post_request_def valid_post_def has_key_def env13_def history13_def env1_def env0_def

lemmas context_defs = contextMessages_def build_contents_def select_recent_def
  MAX_MESSAGES_def MAX_CONTEXT_CHARS_def turn_of_def with_fallback_def truncatedPrompt_def
  context_chars_def

lemma js_methods: "js ''POST'' \<noteq> js ''OPTIONS''" "js ''POST'' \<noteq> js ''GET''"
  by (simp_all add: js_def)

text \<open>A valid POST with the credential present reaches the generation path.\<close>

lemma serve_valid_post:
  assumes "has_key e" "valid_post req prompt chatId"
  shows "serve e req = generate e prompt chatId"
proof -
  from assms(2) obtain b where b: "req_json req = Inr b"
    "get_prop (js ''prompt'') b = JStr prompt" "get_prop (js ''chatId'') b = JStr chatId"
    and m: "req_method req = js ''POST''" and ne: "prompt \<noteq> []" "chatId \<noteq> []"
    by (auto simp: valid_post_def split: sum.splits)
  have "b \<noteq> JNull" using b(2) by auto
  then show ?thesis
    using assms(1) b m ne by (simp add: serve_def js_methods)
qed

lemma sent_generate:
  "sent (generate e prompt chatId) =
     Some (with_fallback prompt (build_contents (select_recent e chatId)))"
  by (simp add: generate_def Let_def split: sum.splits prod.splits)

text \<open>The loop only ever appends to what it was given.\<close>

lemma add_context_acc: "add_context ms cs t = cs @ add_context ms [] t"
proof (induction ms arbitrary: cs t)
  case Nil
  show ?case by simp
next
  case (Cons m ms)
  show ?case
    using Cons.IH [of "cs @ [turn_of m]"] Cons.IH [of "[turn_of m]"] by simp
qed

lemma add_context_length: "length (add_context ms [] t) \<le> length ms"
proof (induction ms arbitrary: t)
  case Nil
  show ?case by simp
next
  case (Cons m ms)
  show ?case
    using Cons.IH [of "t + length (row_content m)"]
      add_context_acc [of ms "[turn_of m]"] by simp
qed

lemma add_context_prefix:
  "add_context ms [] t = map turn_of (take (length (add_context ms [] t)) ms)"
proof (induction ms arbitrary: t)
  case Nil
  show ?case by simp
next
  case (Cons m ms)
  show ?case
    using Cons.IH [of "t + length (row_content m)"]
      add_context_acc [of ms "[turn_of m]"] by simp
qed

lemma add_context_chars:
  "t \<le> MAX_CONTEXT_CHARS \<Longrightarrow> t + context_chars (add_context ms [] t) \<le> MAX_CONTEXT_CHARS"
proof (induction ms arbitrary: t)
  case Nil
  then show ?case by (simp add: context_chars_def)
next
  case (Cons m ms)
  show ?case
  proof (cases "t + length (row_content m) > MAX_CONTEXT_CHARS")
    case True
    then show ?thesis using Cons.prems by (simp add: context_chars_def)
  next
    case False
    then have "t + length (row_content m)
        + context_chars (add_context ms [] (t + length (row_content m))) \<le> MAX_CONTEXT_CHARS"
      using Cons.IH [of "t + length (row_content m)"] by simp
    then show ?thesis
      using False add_context_acc [of ms "[turn_of m]"]
      by (simp add: context_chars_def turn_of_def)
  qed
qed

lemma add_context_stop:
  "length (add_context ms [] t) < length ms \<Longrightarrow>
   MAX_CONTEXT_CHARS < t + context_chars (add_context ms [] t)
      + length (row_content (ms ! length (add_context ms [] t)))"
proof (induction ms arbitrary: t)
  case Nil
  then show ?case by simp
next
  case (Cons m ms)
  show ?case
  proof (cases "t + length (row_content m) > MAX_CONTEXT_CHARS")
    case True
    then show ?thesis by (simp add: context_chars_def)
  next
    case False
    have eq: "add_context (m # ms) [] t
        = turn_of m # add_context ms [] (t + length (row_content m))"
      using False add_context_acc [of ms "[turn_of m]"] by simp
    have "length (add_context ms [] (t + length (row_content m))) < length ms"
      using Cons.prems eq by simp
    from Cons.IH [OF this] show ?thesis
      using eq by (simp add: context_chars_def turn_of_def)
  qed
qed

lemma select_recent_length:
  "length (contextMessages (select_recent e chatId)) \<le> MAX_MESSAGES"
  by (simp add: contextMessages_def select_recent_def)

lemma contextMessages_sorted:
  "sorted (map created_at (contextMessages (select_recent e chatId)))"
proof (cases "select_fails e")
  case True
  then show ?thesis by (simp add: contextMessages_def select_recent_def)
next
  case False
  let ?xs = "sort_key created_at (filter (\<lambda>m. chat_id m = Some chatId) (messages_table e))"
  have "contextMessages (select_recent e chatId) = drop (length ?xs - MAX_MESSAGES) ?xs"
    using False by (simp add: contextMessages_def select_recent_def rev_take)
  moreover have "sorted (map created_at ?xs)" by (rule sorted_sort_key)
  ultimately show ?thesis by (simp add: drop_map [symmetric] sorted_wrt_drop)
qed

lemma build_contents_eq:
  "build_contents r = add_context (contextMessages r) [] 0"
  by (cases r) (auto simp: build_contents_def contextMessages_def)

text \<open>The extracted text is \<open>null\<close> or truthy, so \<open>if (text)\<close> tests for \<open>null\<close>.\<close>

lemma extract_text_truthy: "truthy (extract_text out) = (extract_text out \<noteq> JNull)"
  by (auto simp: extract_text_def Let_def)

lemma inserted_generate:
  "upstream e = Inr (st, out) \<Longrightarrow> res_ok st \<Longrightarrow>
   inserted (generate e prompt chatId) =
     (if extract_text out \<noteq> JNull
      then [\<lparr>ins_chat_id = chatId, ins_content = extract_text out,
             ins_sender = js ''assistant''\<rparr>]
      else [])"
  using extract_text_truthy [of out] by (simp add: generate_def Let_def)

text \<open>
  C4. Whatever the store holds for the conversation, the context posted to the
  generation endpoint has at most 12 turns and at most 5000 characters. At most 12
  turns are loaded, and the stored turns in the context are a prefix of them in
  chronological order: the first turn that would bring the total above 5000 is left
  out with all later ones.
\<close>

theorem context_window_bounded:
  assumes "has_key e" and "valid_post req prompt chatId"
  shows "sent (serve e req) = Some (with_fallback prompt (build_contents (select_recent e chatId))) \<and>
    length (with_fallback prompt (build_contents (select_recent e chatId))) \<le> 12 \<and>
    context_chars (with_fallback prompt (build_contents (select_recent e chatId))) \<le> 5000 \<and>
    length (contextMessages (select_recent e chatId)) \<le> 12 \<and>
    sorted (map created_at (contextMessages (select_recent e chatId))) \<and>
    build_contents (select_recent e chatId) =
      map turn_of (take (length (build_contents (select_recent e chatId)))
                     (contextMessages (select_recent e chatId))) \<and>
    context_chars (build_contents (select_recent e chatId)) \<le> 5000 \<and>
    (length (build_contents (select_recent e chatId))
        < length (contextMessages (select_recent e chatId)) \<longrightarrow>
     5000 < context_chars (build_contents (select_recent e chatId))
        + length (row_content (contextMessages (select_recent e chatId)
                                 ! length (build_contents (select_recent e chatId)))))"
proof -
  let ?r = "select_recent e chatId"
  let ?w = "contextMessages ?r"
  let ?c = "build_contents ?r"
  have c: "?c = add_context ?w [] 0" by (rule build_contents_eq)
  have s: "sent (serve e req) = Some (with_fallback prompt ?c)"
    using serve_valid_post [OF assms] sent_generate by simp
  have w: "length ?w \<le> 12"
    using select_recent_length [of e chatId] by (simp add: MAX_MESSAGES_def)
  have len: "length ?c \<le> 12"
    using add_context_length [of ?w 0] w c by simp
  have ch: "context_chars ?c \<le> 5000"
    using add_context_chars [of 0 ?w] c by (simp add: MAX_CONTEXT_CHARS_def)
  have pre: "?c = map turn_of (take (length ?c) ?w)"
    using add_context_prefix [of ?w 0] c by simp
  have stop: "length ?c < length ?w \<longrightarrow>
      5000 < context_chars ?c + length (row_content (?w ! length ?c))"
    using add_context_stop [of ?w 0] c by (simp add: MAX_CONTEXT_CHARS_def)
  have fl: "length (with_fallback prompt ?c) \<le> 12"
    using len by (simp add: with_fallback_def)
  have fc: "context_chars (with_fallback prompt ?c) \<le> 5000"
    using ch by (simp add: with_fallback_def context_chars_def truncatedPrompt_def)
  note srt = contextMessages_sorted [of e chatId]
  from s fl fc w srt pre ch stop show ?thesis by blast
qed

theorem context_window_bounded_witness:
  "has_key env15 \<and> valid_post req15 (js ''hi'') (js ''c1'') \<and>
   length (filter (\<lambda>m. chat_id m = Some (js ''c1'')) (messages_table env15)) = 15 \<and>
   map created_at (contextMessages (select_recent env15 (js ''c1'')))
     = [4, 5, 7, 8, 9, 10, 11, 12, 13, 14, 15, 16] \<and>
   sent (serve env15 req15) =
     Some [\<lparr>turn_role = js ''model'', turn_text = chars 3000\<rparr>,
           \<lparr>turn_role = js ''user'', turn_text = chars 1500\<rparr>] \<and>
   length (row_content (contextMessages (select_recent env15 (js ''c1'')) ! 2)) = 1000 \<and>
   length (row_content (contextMessages (select_recent env15 (js ''c1'')) ! 3)) = 2"
proof -
  have h: "has_key env15" by (simp add: example_defs)
  have v: "valid_post req15 (js ''hi'') (js ''c1'')" by (simp add: example_defs)
  have b: "build_contents (select_recent env15 (js ''c1'')) =
     [\<lparr>turn_role = js ''model'', turn_text = chars 3000\<rparr>,
      \<lparr>turn_role = js ''user'', turn_text = chars 1500\<rparr>]"
    by (simp add: example_defs context_defs)
  have n: "length (filter (\<lambda>m. chat_id m = Some (js ''c1'')) (messages_table env15)) = 15"
    by (simp add: example_defs)
  have w: "map created_at (contextMessages (select_recent env15 (js ''c1'')))
     = [4, 5, 7, 8, 9, 10, 11, 12, 13, 14, 15, 16]"
    by (simp add: example_defs context_defs)
  have r2: "length (row_content (contextMessages (select_recent env15 (js ''c1'')) ! 2)) = 1000"
    by (simp add: example_defs context_defs)
  have r3: "length (row_content (contextMessages (select_recent env15 (js ''c1'')) ! 3)) = 2"
    by (simp add: example_defs context_defs)
  from context_window_bounded [OF h v]
  have "sent (serve env15 req15) =
     Some (with_fallback (js ''hi'') (build_contents (select_recent env15 (js ''c1''))))"
    by blast
  then have "sent (serve env15 req15) =
     Some [\<lparr>turn_role = js ''model'', turn_text = chars 3000\<rparr>,
           \<lparr>turn_role = js ''user'', turn_text = chars 1500\<rparr>]"
    by (simp add: b with_fallback_def)
  with h v n w r2 r3 show ?thesis by blast
qed

text \<open>
  C5. A valid POST for a conversation with no stored turn posts exactly one turn,
  of role \<open>user\<close>, whose text is the prompt cut to at most 1000 characters.
\<close>

theorem fallback_when_no_turns:
  assumes "has_key e" and "valid_post req prompt chatId"
    and "filter (\<lambda>m. chat_id m = Some chatId) (messages_table e) = []"
  shows "sent (serve e req) = Some [\<lparr>turn_role = js ''user'', turn_text = take 1000 prompt\<rparr>] \<and>
    length (take 1000 prompt) \<le> 1000"
proof -
  have "build_contents (select_recent e chatId) = []"
    using assms(3) by (simp add: build_contents_def select_recent_def)
  then show ?thesis
    using serve_valid_post [OF assms(1,2)] sent_generate [of e prompt chatId]
    by (simp add: with_fallback_def truncatedPrompt_def)
qed

theorem fallback_when_no_turns_witness:
  "has_key env0 \<and> valid_post req15 (js ''hi'') (js ''c1'') \<and>
   filter (\<lambda>m. chat_id m = Some (js ''c1'')) (messages_table env0) = [] \<and>
   sent (serve env0 req15) = Some [\<lparr>turn_role = js ''user'', turn_text = js ''hi''\<rparr>]"
proof -
  have h: "has_key env0" by (simp add: example_defs)
  have v: "valid_post req15 (js ''hi'') (js ''c1'')" by (simp add: example_defs)
  have f: "filter (\<lambda>m. chat_id m = Some (js ''c1'')) (messages_table env0) = []"
    by (simp add: example_defs)
  from fallback_when_no_turns [OF h v f] h v f show ?thesis by (simp add: js_def)
qed

text \<open>
  C7. When the generation endpoint answers OK: if the extracted text is not
  \<open>null\<close>, exactly one row is handed to the store, with the conversation id, the
  text and the sender \<open>assistant\<close>; if it is \<open>null\<close>, none is. No row with another
  sender (the caller's own turn) is ever inserted.
\<close>

theorem assistant_row_inserted:
  assumes "has_key e" and "valid_post req prompt chatId"
    and "upstream e = Inr (st, out)" and "res_ok st"
  shows "inserted (serve e req) =
      (if extract_text out \<noteq> JNull
       then [\<lparr>ins_chat_id = chatId, ins_content = extract_text out,
              ins_sender = js ''assistant''\<rparr>]
       else []) \<and>
    (\<forall>r \<in> set (inserted (serve e req)). ins_sender r = js ''assistant'')"
  using serve_valid_post [OF assms(1,2)] inserted_generate [OF assms(3,4), of prompt chatId]
  by simp

theorem assistant_row_inserted_witness:
  "has_key env15 \<and> valid_post req15 (js ''hi'') (js ''c1'') \<and>
   upstream env15 = Inr (200, gemini_reply) \<and> res_ok 200 \<and>
   extract_text gemini_reply = JStr (js ''hello'') \<and>
   inserted (serve env15 req15) =
     [\<lparr>ins_chat_id = js ''c1'', ins_content = JStr (js ''hello''),
       ins_sender = js ''assistant''\<rparr>] \<and>
   extract_text (JObj []) = JNull \<and>
   inserted (serve (env15\<lparr>upstream := Inr (200, JObj [])\<rparr>) req15) = []"
proof -
  have h: "has_key env15" by (simp add: example_defs)
  have h': "has_key (env15\<lparr>upstream := Inr (200, JObj [])\<rparr>)" by (simp add: example_defs)
  have v: "valid_post req15 (js ''hi'') (js ''c1'')" by (simp add: example_defs)
  have u: "upstream env15 = Inr (200, gemini_reply)" by (simp add: example_defs)
  have u': "upstream (env15\<lparr>upstream := Inr (200, JObj [])\<rparr>) = Inr (200, JObj [])" by simp
  have k: "res_ok 200" by (simp add: res_ok_def)
  have x: "extract_text gemini_reply = JStr (js ''hello'')"
    by (simp add: extract_text_def gemini_reply_def js_def)
  have x': "extract_text (JObj []) = JNull"
    by (simp add: extract_text_def js_def)
  from assistant_row_inserted [OF h v u k] assistant_row_inserted [OF h' v u' k] h v u k x x'
  show ?thesis by simp
qed

text \<open>
  C10, as stated, fails: with thirteen stored turns of which the oldest holds 5001
  characters, that turn is not among the twelve loaded, and the twelve others are
  posted, not the truncated prompt.
\<close>

theorem oldest_stored_turn_counterexample:
  "MAX_CONTEXT_CHARS < oldest_chars env13 (js ''c1'') \<and>
   sent (serve env13 req15) =
     Some context13"
proof -
  have h: "has_key env13" by (simp add: example_defs)
  have v: "valid_post req15 (js ''hi'') (js ''c1'')" by (simp add: example_defs)
  have o: "MAX_CONTEXT_CHARS < oldest_chars env13 (js ''c1'')"
    by (simp add: oldest_chars_def example_defs MAX_CONTEXT_CHARS_def)
  have b: "build_contents (select_recent env13 (js ''c1''))
      = context13"
    by (simp add: example_defs context_defs context13_def short_turn_def)
  show ?thesis
    using o b serve_valid_post [OF h v] sent_generate [of env13 "js ''hi''" "js ''c1''"]
    by (simp add: with_fallback_def context13_def)
qed

text \<open>
  C10, amended. The truncated prompt is posted whenever the assembled context is
  empty, and the context is empty whenever the oldest of the loaded turns (the
  twelve most recent ones) alone exceeds 5000 characters.
\<close>

theorem fallback_when_first_loaded_turn_too_long:
  assumes "has_key e" and "valid_post req prompt chatId"
  shows "(build_contents (select_recent e chatId) = [] \<longrightarrow>
      sent (serve e req) = Some [\<lparr>turn_role = js ''user'', turn_text = take 1000 prompt\<rparr>]) \<and>
    (contextMessages (select_recent e chatId) = m # rest \<and> 5000 < length (row_content m) \<longrightarrow>
      build_contents (select_recent e chatId) = [])"
  using serve_valid_post [OF assms] sent_generate [of e prompt chatId]
  by (simp add: build_contents_eq with_fallback_def truncatedPrompt_def MAX_CONTEXT_CHARS_def)

theorem fallback_when_first_loaded_turn_too_long_witness:
  "has_key env1 \<and> valid_post req15 (js ''hi'') (js ''c1'') \<and>
   contextMessages (select_recent env1 (js ''c1''))
     = [stored 1 (js ''c1'') (js ''user'') (chars 5001)] \<and>
   5000 < length (row_content (stored 1 (js ''c1'') (js ''user'') (chars 5001))) \<and>
   sent (serve env1 req15) = Some [\<lparr>turn_role = js ''user'', turn_text = js ''hi''\<rparr>]"
proof -
  have h: "has_key env1" by (simp add: example_defs)
  have v: "valid_post req15 (js ''hi'') (js ''c1'')" by (simp add: example_defs)
  have w: "contextMessages (select_recent env1 (js ''c1''))
     = [stored 1 (js ''c1'') (js ''user'') (chars 5001)]"
    by (simp add: example_defs context_defs)
  have l: "5000 < length (row_content (stored 1 (js ''c1'') (js ''user'') (chars 5001)))"
    by (simp add: example_defs)
  from fallback_when_first_loaded_turn_too_long
         [OF h v, of "stored 1 (js ''c1'') (js ''user'') (chars 5001)" "[]"] h v w l
  show ?thesis by (simp add: js_def)
qed

section \<open>Properties of the chat session manager\<close>

subsection \<open>Redaction\<close>








lemma startsWithSlash_append:
  "startsWithSlash pre \<Longrightarrow> startsWithSlash (pre @ ys)"
  by (cases pre) (simp_all add: startsWithSlash_def)

subsection \<open>Notices and status updates leave the user's messages alone\<close>

lemma userMessages_append [simp]:
  "userMessages (xs @ ys) = userMessages xs @ userMessages ys"
  by (simp add: userMessages_def)

lemma userMessages_addSystemMessage [simp]:
  "userMessages (addSystemMessage i t txt msgs) = userMessages msgs"
  by (simp add: userMessages_def addSystemMessage_def)


lemma setStatus_fresh:
  "i \<notin> msg_id ` set msgs \<Longrightarrow> setStatus i st msgs = msgs"
  unfolding setStatus_def by (induction msgs) auto


lemma noticeCount_addSystemMessage:
  "noticeCount txt (addSystemMessage i t txt msgs) =
     (if noticeCount txt msgs = 0 then 1 else noticeCount txt msgs)"
proof (cases "list_ex (\<lambda>m. sender m = Pilot \<and> content m = txt) msgs")
  case True
  then have "filter (\<lambda>m. sender m = Pilot \<and> content m = txt) msgs \<noteq> []"
    by (simp add: list_ex_iff filter_empty_conv)
  then show ?thesis using True by (simp add: noticeCount_def addSystemMessage_def)
next
  case False
  then have "filter (\<lambda>m. sender m = Pilot \<and> content m = txt) msgs = []"
    by (simp add: list_ex_iff filter_empty_conv)
  then show ?thesis using False by (simp add: noticeCount_def addSystemMessage_def)
qed

lemma addSystemMessage_twice:
  "addSystemMessage i' t' txt (addSystemMessage i t txt msgs) = addSystemMessage i t txt msgs"
  by (simp add: addSystemMessage_def)

lemma fold_addSystemMessage:
  "calls \<noteq> [] \<Longrightarrow>
   fold (\<lambda>(i, t). addSystemMessage i t txt) calls msgs
     = addSystemMessage (fst (hd calls)) (snd (hd calls)) txt msgs"
proof (induction calls arbitrary: msgs)
  case Nil
  then show ?case by simp
next
  case (Cons c calls)
  show ?case
  proof (cases calls)
    case Nil
    then show ?thesis by (simp add: split_def)
  next
    case (Cons d ds)
    then have "fold (\<lambda>(i, t). addSystemMessage i t txt) calls
        (addSystemMessage (fst c) (snd c) txt msgs)
      = addSystemMessage (fst d) (snd d) txt (addSystemMessage (fst c) (snd c) txt msgs)"
      using Cons.IH [of "addSystemMessage (fst c) (snd c) txt msgs"] by simp
    then show ?thesis by (simp add: split_def addSystemMessage_twice)
  qed
qed


subsection \<open>The command handler\<close>







subsection \<open>Submissions\<close>

lemmas chat_examples = hello_def earlier_command_def earlier_text_def idle_def
  resubmit_command_def resubmit_text_def typing_oi_def typing_connect_def
  canned_def send0_def send1_def connect_failed_def typing_other_key_def

lemmas chat_defs = handleSendMessage_def send_command_def send_text_def
  isDuplicateUserMessage_def addSystemMessage_def setStatus_def
  duplicate_notice_def gemini_error_notice_def command_error_notice_def trim_def
  startsWithSlash_def is_space_def is_token_char_def matches_secret_def js_def



text \<open>
  C1. The latch is to be free again after every invocation, on every exit. On the
  early return for a duplicate in the command branch it is not: the command typed
  again within ten seconds leaves the latch set, and the next submission is then
  ignored.
\<close>

theorem latch_stuck_on_duplicate_command:
  "gemini send0 \<and> \<not> isLoading resubmit_command \<and> \<not> isProcessingRef resubmit_command \<and>
   isProcessingRef (handleSendMessage send0 resubmit_command) \<and>
   handleSendMessage send1 ((handleSendMessage send0 resubmit_command)\<lparr>inputValue := js ''oi''\<rparr>)
     = (handleSendMessage send0 resubmit_command)\<lparr>inputValue := js ''oi''\<rparr>"
  by (simp add: chat_examples chat_defs)

text \<open>
  C2. After a valid submission has settled, the user's message is to be sent or
  failed. When the proxy answers with a status that is not OK, the notice is added
  and the latch released, but the message keeps the status \<open>sending\<close>.
\<close>

theorem status_left_sending_on_http_error:
  "messages (handleSendMessage send0 typing_oi) =
     [hello,
      \<lparr>msg_id = js ''u-2'', content = js ''oi'', sender = User, timestamp = 3000,
        status = Some Sending, replyToId = None, attachments = Some []\<rparr>,
      \<lparr>msg_id = js ''sys-1'', content = js ''Erro Gemini: quota'', sender = Pilot,
        timestamp = 3000, status = Some Sent, replyToId = None, attachments = None\<rparr>] \<and>
   statusOf (user_id send0) (messages (handleSendMessage send0 typing_oi)) = Some Sending \<and>
   \<not> isProcessingRef (handleSendMessage send0 typing_oi) \<and>
   \<not> isLoading (handleSendMessage send0 typing_oi)"
  by (simp add: chat_examples chat_defs statusOf_def)

text \<open>
  C3, as stated, fails: a duplicate submission empties the input field, and a second
  duplicate attempt adds no second notice, since a notice with that text is in the
  transcript already.
\<close>

theorem duplicate_notices_counterexample:
  "duplicateSubmission send0 resubmit_text \<and>
   inputValue (handleSendMessage send0 resubmit_text) \<noteq> inputValue resubmit_text \<and>
   duplicateSubmission send1 ((handleSendMessage send0 resubmit_text)\<lparr>inputValue := js ''oi''\<rparr>) \<and>
   noticeCount duplicate_notice
     (messages (handleSendMessage send1
        ((handleSendMessage send0 resubmit_text)\<lparr>inputValue := js ''oi''\<rparr>))) = 1"
  by (simp add: chat_examples chat_defs duplicateSubmission_def noticeCount_def)

text \<open>
  C3, amended. A submission that repeats a message of the same sender, with the same
  text, reply target and number of attachments, within the trailing ten seconds
  appends no user message; it empties the input text and leaves the reply target and
  the pending attachments as they are; the notice is appended only if no message of
  the assistant with that text is in the transcript, so that after any number of
  attempts the transcript holds one such notice.
\<close>

theorem duplicate_suppressed:
  assumes "gemini e" and "trim (inputValue s) \<noteq> []" and "\<not> isLoading s"
    and "\<not> isProcessingRef s" and "duplicateSubmission e s"
  shows "userMessages (messages (handleSendMessage e s)) = userMessages (messages s) \<and>
    inputValue (handleSendMessage e s) = [] \<and>
    replyTo (handleSendMessage e s) = replyTo s \<and>
    pendingFiles (handleSendMessage e s) = pendingFiles s \<and>
    messages (handleSendMessage e s)
      = addSystemMessage (notice_id e) (notice_time e) duplicate_notice (messages s) \<and>
    noticeCount duplicate_notice (messages (handleSendMessage e s))
      = (if noticeCount duplicate_notice (messages s) = 0 then 1
         else noticeCount duplicate_notice (messages s))"
proof -
  have m: "messages (handleSendMessage e s)
      = addSystemMessage (notice_id e) (notice_time e) duplicate_notice (messages s)"
    and i: "inputValue (handleSendMessage e s) = []"
    and r: "replyTo (handleSendMessage e s) = replyTo s"
    and p: "pendingFiles (handleSendMessage e s) = pendingFiles s"
    using assms
    by (auto simp: handleSendMessage_def send_command_def send_text_def
        duplicateSubmission_def Let_def split: if_splits)
  show ?thesis
    using m i r p noticeCount_addSystemMessage [of duplicate_notice] by simp
qed

theorem duplicate_suppressed_witness:
  "gemini send0 \<and> trim (inputValue resubmit_text) \<noteq> [] \<and> \<not> isLoading resubmit_text \<and>
   \<not> isProcessingRef resubmit_text \<and> duplicateSubmission send0 resubmit_text \<and>
   messages (handleSendMessage send0 resubmit_text) =
     [hello, earlier_text,
      \<lparr>msg_id = js ''sys-1'', content = duplicate_notice, sender = Pilot, timestamp = 3000,
        status = Some Sent, replyToId = None, attachments = None\<rparr>] \<and>
   inputValue (handleSendMessage send0 resubmit_text) = [] \<and>
   noticeCount duplicate_notice (messages (handleSendMessage send0 resubmit_text)) = 1"
proof -
  have a: "gemini send0" by (simp add: chat_examples)
  have b: "trim (inputValue resubmit_text) \<noteq> []" by (simp add: chat_examples chat_defs)
  have c: "\<not> isLoading resubmit_text" by (simp add: chat_examples)
  have d: "\<not> isProcessingRef resubmit_text" by (simp add: chat_examples)
  have f: "duplicateSubmission send0 resubmit_text"
    by (simp add: chat_examples chat_defs duplicateSubmission_def)
  have n: "noticeCount duplicate_notice (messages resubmit_text) = 0"
    by (simp add: chat_examples noticeCount_def duplicate_notice_def js_def)
  have g: "addSystemMessage (notice_id send0) (notice_time send0) duplicate_notice
       (messages resubmit_text) =
     [hello, earlier_text,
      \<lparr>msg_id = js ''sys-1'', content = duplicate_notice, sender = Pilot, timestamp = 3000,
        status = Some Sent, replyToId = None, attachments = None\<rparr>]"
    by (simp add: chat_examples addSystemMessage_def duplicate_notice_def js_def)
  from duplicate_suppressed [OF a b c d f]
  have m: "messages (handleSendMessage send0 resubmit_text)
      = addSystemMessage (notice_id send0) (notice_time send0) duplicate_notice
          (messages resubmit_text)"
    and i: "inputValue (handleSendMessage send0 resubmit_text) = []"
    and k: "noticeCount duplicate_notice (messages (handleSendMessage send0 resubmit_text))
      = (if noticeCount duplicate_notice (messages resubmit_text) = 0 then 1
         else noticeCount duplicate_notice (messages resubmit_text))"
    by blast+
  have k1: "noticeCount duplicate_notice (messages (handleSendMessage send0 resubmit_text)) = 1"
    using k n by simp
  from a b c d f m [unfolded g] i k1 show ?thesis by blast
qed




text \<open>
  C9. A notice whose text is the content of any message of the assistant already in
  the transcript, however old, leaves the transcript unchanged; so any number of
  notices with one text adds at most one message.
\<close>

theorem system_notice_deduplicated:
  "(list_ex (\<lambda>m. sender m = Pilot \<and> content m = txt) msgs \<longrightarrow>
      addSystemMessage i t txt msgs = msgs) \<and>
   (noticeCount txt msgs = 0 \<longrightarrow>
      noticeCount txt (fold (\<lambda>(i, t). addSystemMessage i t txt) calls msgs) \<le> 1) \<and>
   length (fold (\<lambda>(i, t). addSystemMessage i t txt) calls msgs) \<le> length msgs + 1"
proof (cases calls)
  case Nil
  then show ?thesis by (simp add: addSystemMessage_def)
next
  case (Cons c cs)
  then have f: "fold (\<lambda>(i, t). addSystemMessage i t txt) calls msgs
      = addSystemMessage (fst c) (snd c) txt msgs"
    using fold_addSystemMessage [of calls "txt" msgs] by simp
  have "noticeCount txt (addSystemMessage (fst c) (snd c) txt msgs)
      = (if noticeCount txt msgs = 0 then 1 else noticeCount txt msgs)"
    by (rule noticeCount_addSystemMessage)
  then show ?thesis using f by (simp add: addSystemMessage_def)
qed

theorem system_notice_deduplicated_witness:
  "list_ex (\<lambda>m. sender m = Pilot \<and> content m = content hello) [hello, earlier_text] \<and>
   addSystemMessage (js ''sys-9'') 99999999 (content hello) [hello, earlier_text]
     = [hello, earlier_text] \<and>
   noticeCount (js ''Erro Gemini: quota'') [hello] = 0 \<and>
   noticeCount (js ''Erro Gemini: quota'')
     (fold (\<lambda>(i, t). addSystemMessage i t (js ''Erro Gemini: quota''))
        [(js ''sys-1'', 3000), (js ''sys-2'', 4000), (js ''sys-3'', 5000)] [hello]) = 1"
proof -
  have a: "list_ex (\<lambda>m. sender m = Pilot \<and> content m = content hello) [hello, earlier_text]"
    by (simp add: hello_def)
  have n: "noticeCount (js ''Erro Gemini: quota'') [hello] = 0"
    by (simp add: noticeCount_def hello_def js_def)
  have k: "noticeCount (js ''Erro Gemini: quota'')
     (fold (\<lambda>(i, t). addSystemMessage i t (js ''Erro Gemini: quota''))
        [(js ''sys-1'', 3000), (js ''sys-2'', 4000), (js ''sys-3'', 5000)] [hello]) = 1"
    by (simp add: noticeCount_def addSystemMessage_def hello_def js_def)
  from system_notice_deduplicated
         [of "content hello" "[hello, earlier_text]" "js ''sys-9''" 99999999 "[]"] a
  have b: "addSystemMessage (js ''sys-9'') 99999999 (content hello) [hello, earlier_text]
     = [hello, earlier_text]"
    by blast
  from a b n k show ?thesis by blast
qed

subsection \<open>The exits that do release the latch and settle the status\<close>

lemma send_text_latch: "\<not> isProcessingRef (send_text e s)"
  by (simp add: send_text_def Let_def split: proxy_call.splits)

lemma send_command_latch:
  "\<not> isDuplicateUserMessage (date_now e) (messages s) (sanitize (trim (inputValue s))) None None
   \<Longrightarrow> \<not> isProcessingRef (send_command e s)"
  by (simp add: send_command_def Let_def)

text \<open>On every other exit the latch is released.\<close>

lemma latch_released_elsewhere:
  assumes "\<not> isProcessingRef s"
    and "\<not> (gemini e \<and> trim (inputValue s) \<noteq> [] \<and> \<not> isLoading s \<and>
             startsWithSlash (trim (inputValue s)) \<and> duplicateSubmission e s)"
  shows "\<not> isProcessingRef (handleSendMessage e s)"
proof (cases "gemini e \<and> trim (inputValue s) \<noteq> [] \<and> \<not> isLoading s")
  case False
  then show ?thesis using assms(1) by (auto simp: handleSendMessage_def)
next
  case True
  show ?thesis
  proof (cases "startsWithSlash (trim (inputValue s))")
    case False
    then show ?thesis
      using True assms(1) send_text_latch by (simp add: handleSendMessage_def)
  next
    case slash: True
    then have "\<not> isDuplicateUserMessage (date_now e) (messages (s\<lparr>isProcessingRef := True\<rparr>))
        (sanitize (trim (inputValue (s\<lparr>isProcessingRef := True\<rparr>)))) None None"
      using True assms(2) by (simp add: duplicateSubmission_def)
    from send_command_latch [OF this] show ?thesis
      using True slash assms(1) by (simp add: handleSendMessage_def)
  qed
qed


lemma filter_setStatus_fresh:
  "i \<notin> msg_id ` set xs \<Longrightarrow> filter (\<lambda>m. msg_id m = i) (setStatus i st xs) = []"
  by (auto simp: setStatus_fresh filter_empty_conv)

lemma statusOf_setStatus_appended:
  assumes "msg_id m \<notin> msg_id ` set xs"
  shows "statusOf (msg_id m) (setStatus (msg_id m) st (xs @ m # ys)) = Some st"
proof -
  have a: "setStatus (msg_id m) st (xs @ m # ys)
      = setStatus (msg_id m) st xs @ m\<lparr>status := Some st\<rparr> # setStatus (msg_id m) st ys"
    by (simp add: setStatus_def)
  show ?thesis
    unfolding a statusOf_def using filter_setStatus_fresh [OF assms] by simp
qed


lemma statusOf_setStatus_notice:
  assumes "msg_id m \<notin> msg_id ` set xs"
  shows "statusOf (msg_id m) (setStatus (msg_id m) st (addSystemMessage sid t c (xs @ [m])))
     = Some st"
proof (cases "list_ex (\<lambda>m. sender m = Pilot \<and> content m = c) (xs @ [m])")
  case True
  then have "addSystemMessage sid t c (xs @ [m]) = xs @ m # []"
    unfolding addSystemMessage_def by simp
  then show ?thesis using statusOf_setStatus_appended [OF assms, of st "[]"] by simp
next
  case False
  then obtain n where "addSystemMessage sid t c (xs @ [m]) = xs @ m # [n]"
    unfolding addSystemMessage_def by simp
  then show ?thesis using statusOf_setStatus_appended [OF assms, of st "[n]"] by simp
qed


text \<open>In every branch of a plain-text submission but the one for a response that is
  not OK, the user's message ends as sent or as failed.\<close>

lemma status_settled_elsewhere:
  assumes "gemini e" and "trim (inputValue s) \<noteq> []" and "\<not> isLoading s"
    and "\<not> isProcessingRef s" and "\<not> startsWithSlash (trim (inputValue s))"
    and "\<not> duplicateSubmission e s" and "user_id e \<notin> msg_id ` set (messages s)"
    and "geminiHealth s \<longrightarrow> (\<forall>err. proxy e \<noteq> HttpError err)"
  shows "statusOf (user_id e) (messages (handleSendMessage e s)) \<in> {Some Sent, Some Failed}"
proof -
  let ?um = "\<lparr>msg_id = user_id e, content = inputValue s, sender = User,
     timestamp = now_iso e, status = Some Sending,
     replyToId = map_option msg_id (replyTo s), attachments = Some (pendingFiles s)\<rparr>"
  let ?s = "s\<lparr>isProcessingRef := True\<rparr>"
  have s1: "\<And>st ys. statusOf (user_id e) (setStatus (user_id e) st (messages s @ ?um # ys))
      = Some st"
    using statusOf_setStatus_appended [of ?um "messages s"] assms(7) by simp
  have s0: "\<And>st. statusOf (user_id e) (setStatus (user_id e) st (messages s @ [?um]))
      = Some st"
    using s1 by simp
  have s2: "\<And>st sid t c. statusOf (user_id e)
      (setStatus (user_id e) st (addSystemMessage sid t c (messages s @ [?um]))) = Some st"
    using statusOf_setStatus_notice [of ?um "messages s"] assms(7) by simp
  have h: "handleSendMessage e s = send_text e ?s"
    using assms(1-5) by (simp add: handleSendMessage_def)
  have nd: "\<not> isDuplicateUserMessage (date_now e) (messages s) (inputValue s)
      (map_option msg_id (replyTo s)) (Some (pendingFiles s))"
    using assms(5,6) by (simp add: duplicateSubmission_def)
  show ?thesis
  proof (cases "geminiHealth s")
    case False
    then show ?thesis
      using nd s0 s1 by (simp add: h send_text_def Let_def)
  next
    case True
    show ?thesis
    proof (cases "proxy e")
      case (FetchThrew err)
      then show ?thesis
        using nd True assms(1) s2 by (simp add: h send_text_def Let_def)
    next
      case (HttpError err)
      then show ?thesis using True assms(8) by simp
    next
      case (HttpOk t)
      then show ?thesis
        using nd True assms(1) s1 by (simp add: h send_text_def Let_def)
    qed
  qed
qed

end
